theory Spec2Isabelle
  imports Complex_Main
begin

section \<open>Python values used by the application\<close>

text \<open>
  Every handler of the application catches \<open>Exception\<close> and reads at most \<open>str(e)\<close>, so an
  exception is modelled by its class and message. \<open>Retry\<close> and \<open>MaxRetriesExceededError\<close>
  are the two exceptions of the task framework that \<open>self.retry\<close> raises; both are
  subclasses of \<open>Exception\<close>.
\<close>

datatype exn =
    Exception string
  | ZeroDivisionError
  | OverflowError
  | ValueError string
  | Retry
  | MaxRetriesExceededError

fun str_exn :: "exn \<Rightarrow> string" where
  "str_exn (Exception m) = m"
| "str_exn ZeroDivisionError = ''integer division or modulo by zero''"
| "str_exn OverflowError = ''integer division result too large for a float''"
| "str_exn (ValueError m) = m"
| "str_exn Retry = ''Retry''"
| "str_exn MaxRetriesExceededError = ''MaxRetriesExceededError''"

text \<open>Truthiness of an optional string column: \<open>None\<close> and \<open>''\<close> are falsy.\<close>

fun truthy :: "string option \<Rightarrow> bool" where
  "truthy None = False"
| "truthy (Some s) = (s \<noteq> [])"

subsection \<open>Floats\<close>

text \<open>
  A Python float is an IEEE binary64 value: \<open>Finite m e\<close> is the number \<open>m * 2^e\<close>, kept
  with \<open>2^52 \<le> |m| < 2^53\<close> and \<open>- 1074 \<le> e \<le> 971\<close>, or with \<open>|m| < 2^52\<close> and \<open>e = - 1074\<close>
  (subnormal), or as \<open>Finite 0 0\<close> for zero (the sign of zero is not kept: \<open>-0.0 == 0.0\<close>).
  \<open>Infinity neg\<close> is \<open>inf\<close> or \<open>-inf\<close>.
\<close>

datatype pyfloat = Finite int int | Infinity bool | NaN

text \<open>The number of binary digits of a positive integer, \<open>n.bit_length()\<close>.\<close>

function bit_length :: "int \<Rightarrow> int" where
  "bit_length n = (if n \<le> 0 then 0 else 1 + bit_length (n div 2))"
  by pat_completeness auto
termination
  by (relation "measure nat") auto

declare bit_length.simps [simp del]

text \<open>The integer nearest to \<open>n / d\<close> for \<open>d > 0\<close>, a tie going to the even one.\<close>

definition round_half_even :: "int \<Rightarrow> int \<Rightarrow> int" where
  "round_half_even n d =
     (let q = n div d; r = n mod d
      in if 2 * r < d then q
         else if d < 2 * r then q + 1
         else if even q then q else q + 1)"

text \<open>\<open>floor (log2 (a / q))\<close> for \<open>a > 0\<close> and \<open>q > 0\<close>: the difference \<open>s\<close> of the bit lengths
  or \<open>s - 1\<close>, decided by comparing \<open>a / q\<close> with \<open>2^s\<close>.\<close>

definition floor_log2 :: "int \<Rightarrow> int \<Rightarrow> int" where
  "floor_log2 a q =
     (let s = bit_length a - bit_length q
      in if q * 2 ^ nat s \<le> a * 2 ^ nat (- s) then s else s - 1)"

text \<open>
  The binary64 value nearest to the rational \<open>p / q\<close> (\<open>q > 0\<close>), ties to even: the result
  every IEEE operation gives for its exact result \<open>p / q\<close>. The exponent of the grid is
  \<open>floor (log2 |p / q|) - 52\<close>, and \<open>- 1074\<close> in the subnormal range; a mantissa rounded up to
  \<open>2^53\<close> moves to the next exponent; past the largest exponent the result is infinite.
\<close>

definition nearest_double :: "int \<Rightarrow> int \<Rightarrow> pyfloat" where
  "nearest_double p q =
     (if p = 0 then Finite 0 0
      else
        (let a = \<bar>p\<bar>;
             e = max (floor_log2 a q - 52) (- 1074);
             m = round_half_even (a * 2 ^ nat (- e)) (q * 2 ^ nat e);
             e' = (if m = 2 ^ 53 then e + 1 else e);
             m' = (if m = 2 ^ 53 then 2 ^ 52 else m)
         in if 971 < e' then Infinity (p < 0)
            else if m' = 0 then Finite 0 0
            else Finite (sgn p * m') e'))"

text \<open>\<open>a / b\<close> on Python integers: the correctly rounded quotient,
  \<open>ZeroDivisionError\<close> for a zero divisor and \<open>OverflowError\<close> when the quotient is too
  large for a float.\<close>

definition py_truediv :: "int \<Rightarrow> int \<Rightarrow> exn + pyfloat" where
  "py_truediv a b =
     (if b = 0 then Inl ZeroDivisionError
      else
        (case nearest_double (a * sgn b) \<bar>b\<bar> of
           Finite m e \<Rightarrow> Inr (Finite m e)
         | Infinity neg \<Rightarrow> Inl OverflowError
         | NaN \<Rightarrow> Inr NaN))"

text \<open>\<open>x * y\<close> on floats: the exact product rounded; an overflow gives an infinity and
  raises nothing.\<close>

fun py_float_mul :: "pyfloat \<Rightarrow> pyfloat \<Rightarrow> pyfloat" where
  "py_float_mul (Finite m1 e1) (Finite m2 e2) =
     nearest_double (m1 * m2 * 2 ^ nat (e1 + e2)) (2 ^ nat (- (e1 + e2)))"
| "py_float_mul (Infinity n1) (Infinity n2) = Infinity (n1 \<noteq> n2)"
| "py_float_mul (Infinity n1) (Finite m2 e2) =
     (if m2 = 0 then NaN else Infinity (n1 \<noteq> (m2 < 0)))"
| "py_float_mul (Finite m1 e1) (Infinity n2) =
     (if m1 = 0 then NaN else Infinity ((m1 < 0) \<noteq> n2))"
| "py_float_mul NaN y = NaN"
| "py_float_mul x NaN = NaN"

text \<open>\<open>float(k)\<close> for an integer that a float holds exactly, as \<open>100\<close> in \<open>x * 100\<close>.\<close>

definition py_float :: "int \<Rightarrow> pyfloat" where
  "py_float k = nearest_double k 1"

subsection \<open>Naive datetimes\<close>

text \<open>
  A \<open>datetime\<close> without time zone: the ordinal of its date and the four fields of its time
  of day. Comparison and subtraction go through the number of microseconds since the
  ordinal 0, which is how Python orders and subtracts naive datetimes. The bound of the
  calendar (year 9999) is not modelled.
\<close>

record datetime =
  dt_day :: int
  dt_hour :: int
  dt_minute :: int
  dt_second :: int
  dt_microsecond :: int

definition day_micros :: int where
  "day_micros = 86400000000"

definition dt_micros :: "datetime \<Rightarrow> int" where
  "dt_micros d =
     dt_day d * day_micros
     + ((dt_hour d * 60 + dt_minute d) * 60 + dt_second d) * 1000000
     + dt_microsecond d"

definition dt_le :: "datetime \<Rightarrow> datetime \<Rightarrow> bool" where
  "dt_le a b = (dt_micros a \<le> dt_micros b)"

definition dt_lt :: "datetime \<Rightarrow> datetime \<Rightarrow> bool" where
  "dt_lt a b = (dt_micros a < dt_micros b)"

text \<open>\<open>d + timedelta(days=n)\<close>; \<open>d - timedelta(days=30)\<close> is \<open>add_days d (- 30)\<close>, and
  \<open>timedelta(hours=24)\<close> is one day.\<close>

definition add_days :: "datetime \<Rightarrow> int \<Rightarrow> datetime" where
  "add_days d n = d\<lparr>dt_day := dt_day d + n\<rparr>"

text \<open>\<open>(b - a).days\<close>: a timedelta is normalised with its seconds and microseconds
  non-negative, so \<open>days\<close> is the floor of the difference in days.\<close>

definition delta_days :: "datetime \<Rightarrow> datetime \<Rightarrow> int" where
  "delta_days b a = (dt_micros b - dt_micros a) div day_micros"

text \<open>\<open>d.replace(hour=h, minute=0, second=0)\<close> raises \<open>ValueError\<close> for an hour
  outside \<open>0..23\<close>.\<close>

definition replace_hms :: "datetime \<Rightarrow> int \<Rightarrow> exn + datetime" where
  "replace_hms d h =
     (if 0 \<le> h \<and> h \<le> 23
      then Inr (d\<lparr>dt_hour := h, dt_minute := 0, dt_second := 0\<rparr>)
      else Inl (ValueError ''hour must be in 0..23''))"

section \<open>models.py\<close>

record user =
  twitter_access_token :: "string option"
  twitter_access_token_secret :: "string option"

definition has_twitter_auth :: "user \<Rightarrow> bool" where
  "has_twitter_auth u =
     (truthy (twitter_access_token u) \<and> truthy (twitter_access_token_secret u))"

record campaign =
  c_id :: int
  tweet_frequency :: int
  is_active :: bool
  c_user_id :: int

record scheduled_tweet =
  st_id :: int
  content :: string
  scheduled_time :: datetime
  status :: string
  tweet_id :: "string option"
  error_message :: "string option"
  created_at :: datetime
  posted_at :: "datetime option"
  user_id :: int
  campaign_id :: "int option"

record tweet_analytics =
  ta_id :: int
  ta_tweet_id :: string
  likes :: int
  retweets :: int
  replies :: int
  impressions :: int
  engagement_rate :: pyfloat
  last_updated :: datetime
  ta_campaign_id :: "int option"
  ta_user_id :: int

record trending_hashtag =
  hashtag :: string
  updated_at :: datetime

text \<open>The committed contents of the database: one list of rows per table, in insertion
  order, and the two tables that are only looked up by primary key as maps.\<close>

record db =
  users :: "int \<rightharpoonup> user"
  campaigns :: "int \<rightharpoonup> campaign"
  tweets :: "scheduled_tweet list"
  analytics :: "tweet_analytics list"
  trends :: "trending_hashtag list"

text \<open>\<open>ScheduledTweet.query.get(id)\<close>.\<close>

definition query_get :: "scheduled_tweet list \<Rightarrow> int \<Rightarrow> scheduled_tweet option" where
  "query_get ts i = find (\<lambda>t. st_id t = i) ts"

text \<open>Committing a loaded row writes its fields back to the row with its primary key.\<close>

definition write_row :: "scheduled_tweet \<Rightarrow> scheduled_tweet list \<Rightarrow> scheduled_tweet list" where
  "write_row r ts = map (\<lambda>t. if st_id t = st_id r then r else t) ts"

text \<open>The primary key the database gives the next inserted row.\<close>

definition next_id :: "scheduled_tweet list \<Rightarrow> int" where
  "next_id ts = fold max (map st_id ts) 0 + 1"

section \<open>services/campaign\_service.py: the batch scheduler\<close>

text \<open>\<open>hour_offset = (i + 1) * (24 // (frequency + 1))\<close> on Python integers; \<open>//\<close> is
  floor division and raises on a zero divisor.\<close>

definition hour_offset :: "int \<Rightarrow> int \<Rightarrow> exn + int" where
  "hour_offset frequency i =
     (if frequency + 1 = 0 then Inl ZeroDivisionError
      else Inr ((i + 1) * (24 div (frequency + 1))))"

text \<open>\<open>range(n)\<close>.\<close>

definition py_range :: "int \<Rightarrow> int list" where
  "py_range n = map int [0..<nat n]"

text \<open>The constructor call \<open>ScheduledTweet(content=..., scheduled_time=..., user_id=...,
  campaign_id=...)\<close> with the column defaults the insert applies (status \<open>'scheduled'\<close>,
  \<open>created_at\<close> the current time); the primary key is given by \<open>insert_rows\<close>.\<close>

definition ScheduledTweet ::
  "datetime \<Rightarrow> string \<Rightarrow> datetime \<Rightarrow> int \<Rightarrow> int option \<Rightarrow> scheduled_tweet" where
  "ScheduledTweet now c t uid cid =
     \<lparr>st_id = 0, content = c, scheduled_time = t, status = ''scheduled'', tweet_id = None,
      error_message = None, created_at = now, posted_at = None, user_id = uid,
      campaign_id = cid\<rparr>"

text \<open>\<open>db.session.add\<close> of new rows followed by \<open>commit\<close>: the rows are inserted in the
  order they were added, each with the next primary key.\<close>

fun insert_rows :: "scheduled_tweet list \<Rightarrow> scheduled_tweet list \<Rightarrow> scheduled_tweet list" where
  "insert_rows ts [] = ts"
| "insert_rows ts (p # ps) = insert_rows (ts @ [p\<lparr>st_id := next_id ts\<rparr>]) ps"

text \<open>
  The generation loop of \<open>generate_campaign_content\<close>. The content service is external:
  \<open>ai i\<close> is what the \<open>i\<close>-th call of \<open>generate_tweet_content\<close> does, return a text or
  raise. A text is kept when it is non-empty and not yet in the list.
\<close>

fun generation_loop :: "(int \<Rightarrow> exn + string) \<Rightarrow> int list \<Rightarrow> string list \<Rightarrow> exn + string list" where
  "generation_loop ai [] generated_tweets = Inr generated_tweets"
| "generation_loop ai (i # is) generated_tweets =
     (case ai i of
        Inl e \<Rightarrow> Inl e
      | Inr c \<Rightarrow>
          generation_loop ai is
            (if c \<noteq> [] \<and> c \<notin> set generated_tweets then generated_tweets @ [c]
             else generated_tweets))"

text \<open>Any exception (campaign not found, a failed generation call) is logged and the
  empty list returned.\<close>

definition generate_campaign_content ::
  "(int \<Rightarrow> exn + string) \<Rightarrow> db \<Rightarrow> int \<Rightarrow> int \<Rightarrow> string list" where
  "generate_campaign_content ai d cid num_tweets =
     (case campaigns d cid of
        None \<Rightarrow> []
      | Some c \<Rightarrow>
          (case generation_loop ai (py_range num_tweets) [] of
             Inl e \<Rightarrow> []
           | Inr generated_tweets \<Rightarrow> generated_tweets))"

text \<open>
  The loops of \<open>schedule_campaign_tweets\<close>. The loop state is
  \<open>(scheduled_count, content_index, rows added to the session)\<close>. The inner loop runs
  over \<open>range(frequency)\<close> and breaks when the contents are used up.
\<close>

fun day_loop ::
  "datetime \<Rightarrow> int \<Rightarrow> string list \<Rightarrow> int \<Rightarrow> int \<Rightarrow> datetime \<Rightarrow> int list
   \<Rightarrow> int \<times> nat \<times> scheduled_tweet list \<Rightarrow> exn + (int \<times> nat \<times> scheduled_tweet list)" where
  "day_loop now frequency tweet_contents uid cid current_date [] st = Inr st"
| "day_loop now frequency tweet_contents uid cid current_date (i # is)
     (scheduled_count, content_index, added) =
     (if content_index \<ge> length tweet_contents
      then Inr (scheduled_count, content_index, added)
      else
        (case hour_offset frequency i of
           Inl e \<Rightarrow> Inl e
         | Inr h \<Rightarrow>
             (case replace_hms current_date h of
                Inl e \<Rightarrow> Inl e
              | Inr posting_time \<Rightarrow>
                  day_loop now frequency tweet_contents uid cid current_date is
                    (scheduled_count + 1, content_index + 1,
                     added @ [ScheduledTweet now (tweet_contents ! content_index)
                                posting_time uid (Some cid)]))))"

function campaign_loop ::
  "datetime \<Rightarrow> int \<Rightarrow> string list \<Rightarrow> int \<Rightarrow> int \<Rightarrow> datetime \<Rightarrow> datetime
   \<Rightarrow> int \<times> nat \<times> scheduled_tweet list \<Rightarrow> exn + (int \<times> nat \<times> scheduled_tweet list)" where
  "campaign_loop now frequency tweet_contents uid cid end_date current_date st =
     (if dt_le current_date end_date \<and> fst (snd st) < length tweet_contents
      then
        (case day_loop now frequency tweet_contents uid cid current_date
                (py_range frequency) st of
           Inl e \<Rightarrow> Inl e
         | Inr st' \<Rightarrow>
             campaign_loop now frequency tweet_contents uid cid end_date
               (add_days current_date 1) st')
      else Inr st)"
  by pat_completeness auto
termination
  by (relation "measure (\<lambda>(now, frequency, tweet_contents, uid, cid, end_date, current_date, st).
        nat (dt_micros end_date - dt_micros current_date + 1))")
     (auto simp: dt_le_def dt_micros_def add_days_def day_micros_def)

declare campaign_loop.simps [simp del]

text \<open>\<open>tweets_per_day or campaign.tweet_frequency\<close> takes the campaign's frequency when
  the argument is \<open>None\<close> or \<open>0\<close>.\<close>

definition frequency_of :: "campaign \<Rightarrow> int option \<Rightarrow> int" where
  "frequency_of c tweets_per_day =
     (if tweets_per_day = None \<or> tweets_per_day = Some 0 then tweet_frequency c
      else the tweets_per_day)"

text \<open>The body of the \<open>try\<close> block of \<open>schedule_campaign_tweets\<close>: the count and the rows
  to commit, or the exception raised.\<close>

definition schedule_campaign_tweets_body ::
  "(int \<Rightarrow> exn + string) \<Rightarrow> datetime \<Rightarrow> db \<Rightarrow> int \<Rightarrow> datetime \<Rightarrow> datetime \<Rightarrow> int option
   \<Rightarrow> exn + (int \<times> nat \<times> scheduled_tweet list)" where
  "schedule_campaign_tweets_body ai now d cid start_date end_date tweets_per_day =
     (case campaigns d cid of
        None \<Rightarrow> Inl (Exception ''Campaign not found'')
      | Some campaign \<Rightarrow>
          (let frequency = frequency_of campaign tweets_per_day;
               total_days = delta_days end_date start_date + 1;
               total_tweets_needed = total_days * frequency;
               tweet_contents = generate_campaign_content ai d cid total_tweets_needed
           in if tweet_contents = []
              then Inl (Exception ''Failed to generate tweet content'')
              else campaign_loop now frequency tweet_contents (c_user_id campaign) cid
                     end_date start_date (0, 0, [])))"

text \<open>\<open>schedule_campaign_tweets\<close>: on an exception the session is rolled back, so the
  database is the one before the call, and \<open>Exception("Failed to schedule tweets")\<close> is
  raised; otherwise the added rows are committed and the count returned.\<close>

definition schedule_campaign_tweets ::
  "(int \<Rightarrow> exn + string) \<Rightarrow> datetime \<Rightarrow> db \<Rightarrow> int \<Rightarrow> datetime \<Rightarrow> datetime \<Rightarrow> int option
   \<Rightarrow> (exn + int) \<times> db" where
  "schedule_campaign_tweets ai now d cid start_date end_date tweets_per_day =
     (case schedule_campaign_tweets_body ai now d cid start_date end_date tweets_per_day of
        Inl e \<Rightarrow> (Inl (Exception ''Failed to schedule tweets''), d)
      | Inr (scheduled_count, content_index, added) \<Rightarrow>
          (Inr scheduled_count, d\<lparr>tweets := insert_rows (tweets d) added\<rparr>))"

text \<open>The row the inner loop builds for the slot \<open>i\<close> of the day \<open>cur\<close> from the content
  with index \<open>j\<close>: the constructor call of the loop body with
  \<open>posting_time = cur.replace(hour=(i + 1) * (24 // (frequency + 1)), minute=0, second=0)\<close>.\<close>

definition slot_row ::
  "datetime \<Rightarrow> int \<Rightarrow> string list \<Rightarrow> int \<Rightarrow> int \<Rightarrow> datetime \<Rightarrow> nat \<Rightarrow> nat \<Rightarrow> scheduled_tweet" where
  "slot_row now frequency cs uid cid cur j i =
     ScheduledTweet now (cs ! j)
       (cur\<lparr>dt_hour := (int i + 1) * (24 div (frequency + 1)), dt_minute := 0, dt_second := 0\<rparr>)
       uid (Some cid)"

text \<open>The number of dates \<open>cur, cur + 1 day, ...\<close> that pass the test
  \<open>current_date <= end_date\<close> of the \<open>while\<close> loop.\<close>

definition days_left :: "datetime \<Rightarrow> datetime \<Rightarrow> nat" where
  "days_left end_date cur = (if dt_le cur end_date then nat (delta_days end_date cur) + 1 else 0)"

text \<open>
  \<open>pause_campaign\<close>: \<open>False\<close> when the campaign does not exist; otherwise the campaign
  is deactivated and each of its rows with status \<open>'scheduled'\<close> is set to
  \<open>'cancelled'\<close>.
\<close>

definition pause_campaign :: "db \<Rightarrow> int \<Rightarrow> bool \<times> db" where
  "pause_campaign d cid =
     (case campaigns d cid of
        None \<Rightarrow> (False, d)
      | Some c \<Rightarrow>
          (True,
           d\<lparr>campaigns := (campaigns d)(cid \<mapsto> c\<lparr>is_active := False\<rparr>),
             tweets :=
               map (\<lambda>t. if campaign_id t = Some cid \<and> status t = ''scheduled''
                         then t\<lparr>status := ''cancelled''\<rparr> else t)
                   (tweets d)\<rparr>))"

text \<open>
  \<open>resume_campaign\<close>: the campaign is reactivated and each of its rows with status
  \<open>'cancelled'\<close> and \<open>scheduled_time > datetime.utcnow()\<close> is set to \<open>'scheduled'\<close>.
\<close>

definition resume_campaign :: "datetime \<Rightarrow> db \<Rightarrow> int \<Rightarrow> bool \<times> db" where
  "resume_campaign now d cid =
     (case campaigns d cid of
        None \<Rightarrow> (False, d)
      | Some c \<Rightarrow>
          (True,
           d\<lparr>campaigns := (campaigns d)(cid \<mapsto> c\<lparr>is_active := True\<rparr>),
             tweets :=
               map (\<lambda>t. if campaign_id t = Some cid \<and> status t = ''cancelled''
                            \<and> dt_lt now (scheduled_time t)
                         then t\<lparr>status := ''scheduled''\<rparr> else t)
                   (tweets d)\<rparr>))"

section \<open>tasks.py: the cleanup job\<close>

text \<open>
  The filter of \<open>cleanup_old_data\<close>: \<open>posted_at < cutoff_date\<close> and status in
  \<open>['posted', 'failed']\<close>. In SQL a comparison with a NULL \<open>posted_at\<close> is not true, so
  a row that was never posted is not selected.
\<close>

definition old_tweet :: "datetime \<Rightarrow> scheduled_tweet \<Rightarrow> bool" where
  "old_tweet cutoff_date t =
     ((case posted_at t of None \<Rightarrow> False | Some p \<Rightarrow> dt_lt p cutoff_date)
      \<and> (status t = ''posted'' \<or> status t = ''failed''))"

text \<open>\<open>cleanup_old_data\<close>, run at \<open>now\<close>: the selected tweets and the trends not updated
  for 24 hours are deleted.\<close>

definition cleanup_old_data :: "datetime \<Rightarrow> db \<Rightarrow> db" where
  "cleanup_old_data now d =
     d\<lparr>tweets := filter (\<lambda>t. \<not> old_tweet (add_days now (- 30)) t) (tweets d),
       trends := filter (\<lambda>h. \<not> dt_lt (updated_at h) (add_days now (- 1))) (trends d)\<rparr>"

section \<open>services/analytics\_service.py: the metrics upsert\<close>

text \<open>\<open>analytics_data.get(key, 0)\<close> on the dictionary of integer metrics.\<close>

definition get0 :: "(string \<rightharpoonup> int) \<Rightarrow> string \<Rightarrow> int" where
  "get0 m k = (case m k of None \<Rightarrow> 0 | Some v \<Rightarrow> v)"

text \<open>The engagement rate of \<open>update_tweet_analytics\<close>:
  \<open>(total_engagement / impressions * 100) if impressions > 0 else 0\<close>, a true division of
  two integers and a float product. The integer \<open>0\<close> of the other branch is stored in the
  float column as \<open>0.0\<close>.\<close>

definition engagement :: "(string \<rightharpoonup> int) \<Rightarrow> exn + pyfloat" where
  "engagement analytics_data =
     (let total_engagement = get0 analytics_data ''likes'' + get0 analytics_data ''retweets''
                             + get0 analytics_data ''replies'';
          imp = get0 analytics_data ''impressions''
      in if imp > 0
         then (case py_truediv total_engagement imp of
                 Inl e \<Rightarrow> Inl e
               | Inr q \<Rightarrow> Inr (py_float_mul q (py_float 100)))
         else Inr (Finite 0 0))"

definition same_key :: "string \<Rightarrow> int \<Rightarrow> tweet_analytics \<Rightarrow> bool" where
  "same_key tid uid a = (ta_tweet_id a = tid \<and> ta_user_id a = uid)"

text \<open>Writing back the one row that \<open>.first()\<close> returned: the first matching row.\<close>

fun update_first :: "('a \<Rightarrow> bool) \<Rightarrow> ('a \<Rightarrow> 'a) \<Rightarrow> 'a list \<Rightarrow> 'a list" where
  "update_first P f [] = []"
| "update_first P f (x # xs) = (if P x then f x # xs else x # update_first P f xs)"

text \<open>\<open>update_tweet_analytics\<close>, run at \<open>now\<close>. An exception of the body (the overflow of the
  division) is caught by the handler, which rolls the session back: the database is the one
  before the call. Otherwise the row found is overwritten, or a new row inserted.\<close>

definition update_tweet_analytics ::
  "datetime \<Rightarrow> db \<Rightarrow> string \<Rightarrow> (string \<rightharpoonup> int) \<Rightarrow> int \<Rightarrow> int option \<Rightarrow> db" where
  "update_tweet_analytics now d tid analytics_data uid cid =
     (case engagement analytics_data of
        Inl e \<Rightarrow> d
      | Inr rate \<Rightarrow>
          (case find (same_key tid uid) (analytics d) of
             Some existing_analytics \<Rightarrow>
               d\<lparr>analytics :=
                   update_first (same_key tid uid)
                     (\<lambda>a. a\<lparr>likes := get0 analytics_data ''likes'',
                             retweets := get0 analytics_data ''retweets'',
                             replies := get0 analytics_data ''replies'',
                             impressions := get0 analytics_data ''impressions'',
                             engagement_rate := rate,
                             last_updated := now\<rparr>)
                     (analytics d)\<rparr>
           | None \<Rightarrow>
               d\<lparr>analytics := analytics d @
                   [\<lparr>ta_id = fold max (map ta_id (analytics d)) 0 + 1, ta_tweet_id = tid,
                     likes = get0 analytics_data ''likes'',
                     retweets = get0 analytics_data ''retweets'',
                     replies = get0 analytics_data ''replies'',
                     impressions = get0 analytics_data ''impressions'',
                     engagement_rate = rate,
                     last_updated = now, ta_campaign_id = cid, ta_user_id = uid\<rparr>]\<rparr>))"

section \<open>tasks.py: the publish task\<close>

text \<open>
  What a run of the task leaves outside itself, in program order: a row made durable by
  \<open>db.session.commit()\<close>, and a message sent to the queue. A message is either a re-run of
  the publish task (its argument, the \<open>retries\<close> counter of the new run and its countdown in
  seconds) or the analytics task (tweet id, user id, campaign id, countdown).
\<close>

datatype job =
    PublishRetry int nat int
  | CollectAnalytics string int "int option" int

datatype effect = Commit scheduled_tweet | Send job

text \<open>
  The environment of one run: the clock, and what each external call does. A query may
  raise (database unavailable); \<open>validate_credentials\<close> catches its own exceptions and returns
  a boolean; \<open>post_tweet\<close> returns the tweet id or raises; the commit of the posted row may
  raise; \<open>apply_async\<close> of the analytics task may raise (broker unavailable).
\<close>

record env =
  utcnow :: datetime
  query_raises :: "exn option"
  validate_credentials :: bool
  post_tweet :: "exn + string"
  commit_raises :: "exn option"
  apply_async_raises :: "exn option"

definition max_retries :: nat where
  "max_retries = 3"

text \<open>
  \<open>self.retry(countdown=c)\<close> of the task framework, for a run whose counter is \<open>retries\<close>:
  past \<open>max_retries\<close> it raises \<open>MaxRetriesExceededError\<close> and sends nothing; otherwise it
  sends the task again with the counter incremented and raises \<open>Retry\<close>.
\<close>

definition retry :: "int \<Rightarrow> nat \<Rightarrow> int \<Rightarrow> exn \<times> effect list" where
  "retry scheduled_tweet_id retries countdown =
     (if retries + 1 > max_retries then (MaxRetriesExceededError, [])
      else (Retry, [Send (PublishRetry scheduled_tweet_id (retries + 1) countdown)]))"

text \<open>
  The handler of the inner \<open>try\<close> block: the row is set to \<open>'failed'\<close> with the message of
  the exception and committed, then \<open>self.retry(countdown=60 * 2 ** retries)\<close> is raised. The
  exception it raises is caught by the outer handler, which logs and returns.
\<close>

definition posting_error ::
  "nat \<Rightarrow> db \<Rightarrow> scheduled_tweet \<Rightarrow> exn \<Rightarrow> db \<times> effect list" where
  "posting_error retries d scheduled_tweet e =
     (let t = scheduled_tweet\<lparr>status := ''failed'', error_message := Some (str_exn e)\<rparr>
      in (d\<lparr>tweets := write_row t (tweets d)\<rparr>,
          Commit t # snd (retry (st_id t) retries (60 * 2 ^ retries))))"

text \<open>The two early exits that mark the row failed without any retry.\<close>

definition fail_now :: "db \<Rightarrow> scheduled_tweet \<Rightarrow> string \<Rightarrow> db \<times> effect list" where
  "fail_now d scheduled_tweet msg =
     (let t = scheduled_tweet\<lparr>status := ''failed'', error_message := Some msg\<rparr>
      in (d\<lparr>tweets := write_row t (tweets d)\<rparr>, [Commit t]))"

text \<open>
  \<open>schedule_tweet_task\<close>, for a run with counter \<open>retries\<close>: the database after the run and
  the effects of the run. An exception outside the inner \<open>try\<close> block reaches the outer
  handler, which logs and returns. When the commit of the posted row raises, the inner
  handler runs on a session whose transaction has failed: its own commit raises as well,
  nothing is written and nothing is sent. The user id sent with the analytics task is
  \<open>user.id\<close>, the primary key the user was loaded by.
\<close>

definition schedule_tweet_task :: "env \<Rightarrow> nat \<Rightarrow> db \<Rightarrow> int \<Rightarrow> db \<times> effect list" where
  "schedule_tweet_task e retries d scheduled_tweet_id =
     (case query_raises e of
        Some x \<Rightarrow> (d, [])
      | None \<Rightarrow>
     (case query_get (tweets d) scheduled_tweet_id of
        None \<Rightarrow> (d, [])
      | Some scheduled_tweet \<Rightarrow>
     if status scheduled_tweet \<noteq> ''scheduled'' then (d, [])
     else
     (case users d (user_id scheduled_tweet) of
        None \<Rightarrow> fail_now d scheduled_tweet ''Twitter authentication required''
      | Some u \<Rightarrow>
     if \<not> has_twitter_auth u
     then fail_now d scheduled_tweet ''Twitter authentication required''
     else if \<not> validate_credentials e
     then fail_now d scheduled_tweet ''Invalid Twitter credentials''
     else
     (case post_tweet e of
        Inl x \<Rightarrow> posting_error retries d scheduled_tweet x
      | Inr new_id \<Rightarrow>
          (let t = scheduled_tweet\<lparr>status := ''posted'', tweet_id := Some new_id,
                     posted_at := Some (utcnow e), error_message := None\<rparr>
           in case commit_raises e of
                Some x \<Rightarrow> (d, [])
              | None \<Rightarrow>
                  (let d1 = d\<lparr>tweets := write_row t (tweets d)\<rparr>
                   in case apply_async_raises e of
                        None \<Rightarrow>
                          (d1, [Commit t,
                                Send (CollectAnalytics new_id (user_id t) (campaign_id t) 300)])
                      | Some x \<Rightarrow>
                          (case posting_error retries d1 t x of
                             (d2, effects) \<Rightarrow> (d2, Commit t # effects))))))))"

text \<open>
  The worker: a run of the task, and after it the re-run that the run sent, if any, with
  the environment of that later run. The fuel bounds the number of runs.
\<close>

fun next_retry :: "effect list \<Rightarrow> (int \<times> nat) option" where
  "next_retry [] = None"
| "next_retry (Send (PublishRetry i r c) # es) = Some (i, r)"
| "next_retry (ef # es) = next_retry es"

fun run_chain ::
  "nat \<Rightarrow> (nat \<Rightarrow> env) \<Rightarrow> nat \<Rightarrow> db \<Rightarrow> int \<Rightarrow> (db \<times> effect list) option" where
  "run_chain 0 envs retries d i = None"
| "run_chain (Suc fuel) envs retries d i =
     (case schedule_tweet_task (envs retries) retries d i of
        (d', effects) \<Rightarrow>
          (case next_retry effects of
             None \<Rightarrow> Some (d', effects)
           | Some (i', retries') \<Rightarrow>
               (case run_chain fuel envs retries' d' i' of
                  None \<Rightarrow> None
                | Some (d'', effects') \<Rightarrow> Some (d'', effects @ effects'))))"

text \<open>
  The order the analytics message has to respect: when it is sent, a row with status
  \<open>'posted'\<close>, its tweet id, its user and its campaign has been committed before, and its
  countdown is 300 seconds. The first argument collects the rows committed so far.
\<close>

fun analytics_after_commit :: "scheduled_tweet list \<Rightarrow> effect list \<Rightarrow> bool" where
  "analytics_after_commit cs [] = True"
| "analytics_after_commit cs (Commit r # es) = analytics_after_commit (r # cs) es"
| "analytics_after_commit cs (Send (CollectAnalytics tw uid cid n) # es) =
     (list_ex (\<lambda>r. status r = ''posted'' \<and> tweet_id r = Some tw \<and> user_id r = uid
                    \<and> campaign_id r = cid) cs
      \<and> n = 300 \<and> analytics_after_commit cs es)"
| "analytics_after_commit cs (Send (PublishRetry i r c) # es) = analytics_after_commit cs es"

fun is_analytics :: "effect \<Rightarrow> bool" where
  "is_analytics (Send (CollectAnalytics tw uid cid n)) = True"
| "is_analytics ef = False"

fun is_posted_commit :: "effect \<Rightarrow> bool" where
  "is_posted_commit (Commit r) = (status r = ''posted'')"
| "is_posted_commit ef = False"

text \<open>A row is up to date with a dictionary of metrics.\<close>

definition counters_of :: "(string \<rightharpoonup> int) \<Rightarrow> tweet_analytics \<Rightarrow> bool" where
  "counters_of m r =
     (likes r = get0 m ''likes'' \<and> retweets r = get0 m ''retweets''
      \<and> replies r = get0 m ''replies'' \<and> impressions r = get0 m ''impressions''
      \<and> engagement m = Inr (engagement_rate r))"

section \<open>Example data\<close>

definition w_time :: "int \<Rightarrow> datetime" where
  "w_time dd = \<lparr>dt_day = dd, dt_hour = 12, dt_minute = 0, dt_second = 0, dt_microsecond = 0\<rparr>"

definition w_tweet :: "int \<Rightarrow> string \<Rightarrow> int \<Rightarrow> int option \<Rightarrow> scheduled_tweet" where
  "w_tweet i st dd c =
     \<lparr>st_id = i, content = ''hello'', scheduled_time = w_time dd, status = st, tweet_id = None,
      error_message = None, created_at = w_time 1, posted_at = None, user_id = 1,
      campaign_id = c\<rparr>"

definition w_db :: "scheduled_tweet list \<Rightarrow> db" where
  "w_db ts =
     \<lparr>users = [1 \<mapsto> \<lparr>twitter_access_token = Some ''tok'',
                      twitter_access_token_secret = Some ''sec''\<rparr>],
      campaigns = [7 \<mapsto> \<lparr>c_id = 7, tweet_frequency = 3, is_active = True, c_user_id = 1\<rparr>],
      tweets = ts, analytics = [], trends = []\<rparr>"

definition w_metrics :: "string \<rightharpoonup> int" where
  "w_metrics = [''likes'' \<mapsto> 4, ''retweets'' \<mapsto> 2, ''replies'' \<mapsto> 1, ''impressions'' \<mapsto> 100]"

definition w_posted :: "int \<Rightarrow> int \<Rightarrow> scheduled_tweet" where
  "w_posted i dd =
     (w_tweet i ''posted'' dd (Some 7))\<lparr>tweet_id := Some ''555'', posted_at := Some (w_time dd)\<rparr>"


definition w_env :: "exn + string \<Rightarrow> exn option \<Rightarrow> exn option \<Rightarrow> exn option \<Rightarrow> env" where
  "w_env post q c a =
     \<lparr>utcnow = w_time 20, query_raises = q, validate_credentials = True, post_tweet = post,
      commit_raises = c, apply_async_raises = a\<rparr>"

text \<open>Two content services: one returns a new text at every call, the other starts to
  repeat itself after four texts.\<close>

definition w_ai :: "int \<Rightarrow> exn + string" where
  "w_ai i = Inr (replicate (nat i + 1) CHR ''a'')"

definition w_ai2 :: "int \<Rightarrow> exn + string" where
  "w_ai2 i = Inr (replicate (nat (i mod 4) + 1) CHR ''a'')"

text \<open>The content, day, hour, minute and second of a scheduled row.\<close>

definition slot_of :: "scheduled_tweet \<Rightarrow> string \<times> int \<times> int \<times> int \<times> int" where
  "slot_of t = (content t, dt_day (scheduled_time t), dt_hour (scheduled_time t),
                dt_minute (scheduled_time t), dt_second (scheduled_time t))"


section \<open>Properties of the batch scheduler\<close>

lemma hour_bound:
  fixes N i :: int
  assumes "1 \<le> N" "0 \<le> i" "i < N"
  shows "0 \<le> (i + 1) * (24 div (N + 1))" "(i + 1) * (24 div (N + 1)) \<le> 23"
proof -
  let ?q = "24 div (N + 1)"
  have q0: "0 \<le> ?q" using assms by (simp add: pos_imp_zdiv_nonneg_iff)
  show "0 \<le> (i + 1) * ?q" using q0 assms by simp
  have m: "(N + 1) * ?q + 24 mod (N + 1) = 24" by simp
  have "0 \<le> 24 mod (N + 1)" using assms by simp
  with m have le: "(N + 1) * ?q \<le> 24" by linarith
  have "(i + 1) * ?q \<le> N * ?q" using assms q0 by (intro mult_right_mono) auto
  moreover have "N * ?q + ?q \<le> 24" using le by (simp add: algebra_simps)
  ultimately show "(i + 1) * ?q \<le> 23"
  proof (cases "?q = 0")
    case True then show ?thesis by simp
  next
    case False
    with q0 have "1 \<le> ?q" by linarith
    with \<open>(i + 1) * ?q \<le> N * ?q\<close> \<open>N * ?q + ?q \<le> 24\<close> show ?thesis by linarith
  qed
qed

text \<open>
  C9. For a daily frequency \<open>N \<ge> 1\<close> and a slot index \<open>0 \<le> i < N\<close>, the posting hour
  \<open>(i + 1) * (24 // (N + 1))\<close> is computed without error, lies in \<open>0..23\<close>, and the call
  \<open>replace(hour=..., minute=0, second=0)\<close> on any date succeeds.
\<close>

theorem hour_offset_valid:
  assumes "1 \<le> N" "0 \<le> i" "i < N"
  shows "\<exists>h. hour_offset N i = Inr h \<and> 0 \<le> h \<and> h < 24 \<and> h = (i + 1) * (24 div (N + 1)) \<and>
          replace_hms d h = Inr (d\<lparr>dt_hour := h, dt_minute := 0, dt_second := 0\<rparr>)"
  using hour_bound[OF assms] assms by (simp add: hour_offset_def replace_hms_def)

theorem hour_offset_valid_witness:
  "hour_offset 3 2 = Inr 18 \<and>
   replace_hms \<lparr>dt_day = 738000, dt_hour = 9, dt_minute = 30, dt_second = 15, dt_microsecond = 7\<rparr> 18
     = Inr \<lparr>dt_day = 738000, dt_hour = 18, dt_minute = 0, dt_second = 0, dt_microsecond = 7\<rparr>"
  using hour_offset_valid[of 3 2 "\<lparr>dt_day = 738000, dt_hour = 9, dt_minute = 30, dt_second = 15, dt_microsecond = 7\<rparr>"]
  by (simp add: hour_offset_def)

lemma day_loop_closed:
  assumes "1 \<le> frequency" "b \<le> nat frequency"
  shows "day_loop now frequency cs uid cid cur (map int [a..<b]) (cnt, idx, pend) =
     Inr (cnt + int (min (b - a) (length cs - idx)), idx + min (b - a) (length cs - idx),
          pend @ map (\<lambda>m. slot_row now frequency cs uid cid cur (idx + m) (a + m))
                   [0..<min (b - a) (length cs - idx)])"
  using assms
proof (induction "b - a" arbitrary: a cnt idx pend)
  case 0
  then show ?case by simp
next
  case (Suc n)
  then have ab: "a < b" and n: "n = b - Suc a" by auto
  have upt: "[a..<b] = a # [Suc a..<b]" using ab by (simp add: upt_conv_Cons)
  show ?case
  proof (cases "length cs \<le> idx")
    case True
    then show ?thesis by (simp add: upt)
  next
    case False
    have "int a < frequency" using ab Suc.prems by linarith
    from hour_bound[of frequency "int a"] this Suc.prems
    have hb: "0 \<le> (int a + 1) * (24 div (frequency + 1))" "(int a + 1) * (24 div (frequency + 1)) \<le> 23"
      by auto
    have ho: "hour_offset frequency (int a) = Inr ((int a + 1) * (24 div (frequency + 1)))"
      using Suc.prems by (simp add: hour_offset_def)
    have k: "min (b - a) (length cs - idx) = Suc (min (b - Suc a) (length cs - Suc idx))"
      using ab False by auto
    show ?thesis
      using False hb Suc.hyps(1)[OF n Suc.prems]
      by (simp add: upt ho replace_hms_def k map_upt_Suc slot_row_def del: upt_Suc)
  qed
qed


lemma dt_micros_add_days: "dt_micros (add_days d n) = dt_micros d + n * day_micros"
  by (simp add: dt_micros_def add_days_def algebra_simps)

lemma nat_pred: "(1::int) \<le> q \<Longrightarrow> Suc (nat (q - 1)) = nat q"
  by arith

lemma days_left_step:
  assumes "dt_le cur end_date"
  shows "days_left end_date (add_days cur 1) = days_left end_date cur - 1"
proof -
  define x where "x = dt_micros end_date - dt_micros cur"
  have x0: "0 \<le> x" using assms by (simp add: x_def dt_le_def)
  have dm: "0 < day_micros" by (simp add: day_micros_def)
  have sub: "(x - day_micros) div day_micros = x div day_micros - 1"
    using div_mult_self2[of day_micros x "-1"] dm by simp
  have xn: "dt_micros end_date - dt_micros (add_days cur 1) = x - day_micros"
    by (simp add: x_def dt_micros_add_days)
  have l: "days_left end_date cur = nat (x div day_micros) + 1"
    using assms by (simp add: days_left_def delta_days_def x_def)
  have r: "days_left end_date (add_days cur 1)
      = (if day_micros \<le> x then nat ((x - day_micros) div day_micros) + 1 else 0)"
  proof -
    have "dt_le (add_days cur 1) end_date \<longleftrightarrow> day_micros \<le> x"
      using xn by (simp add: dt_le_def) linarith
    then show ?thesis by (simp add: days_left_def delta_days_def xn)
  qed
  show ?thesis
  proof (cases "day_micros \<le> x")
    case True
    then have "1 \<le> x div day_micros"
      using pos_imp_zdiv_pos_iff[of day_micros x] dm by linarith
    then show ?thesis using True l r sub nat_pred[of "x div day_micros"] by simp
  next
    case False
    then have "x div day_micros = 0" using x0 by simp
    then show ?thesis using False l r by simp
  qed
qed

lemma add_days_0: "add_days d 0 = d"
  by (simp add: add_days_def)

lemma add_days_add: "add_days (add_days d a) b = add_days d (a + b)"
  by (simp add: add_days_def)

lemma min_split: "min (N + M) L = min N L + min M (L - min N L)" for N M L :: nat
  by arith

lemma upt_split: "map f [0..<a + b] = map f [0..<a] @ map (\<lambda>m. f (a + m)) [0..<b]"
proof -
  have "[0..<a + b] = [0..<a] @ map (\<lambda>m. a + m) [0..<b]"
    by (induction b) simp_all
  then show ?thesis by (simp add: comp_def)
qed

lemma rows_split:
  fixes N :: nat
  assumes N: "0 < N" and k1: "k1 \<le> N" and k2: "k1 < N \<Longrightarrow> k2 = 0"
  shows "map (\<lambda>m. g (int (m div N)) (idx + m) (m mod N)) [0..<k1 + k2]
       = map (\<lambda>m. g 0 (idx + m) m) [0..<k1]
         @ map (\<lambda>m. g (1 + int (m div N)) (idx + k1 + m) (m mod N)) [0..<k2]"
proof -
  have a: "map (\<lambda>m. g (int (m div N)) (idx + m) (m mod N)) [0..<k1]
         = map (\<lambda>m. g 0 (idx + m) m) [0..<k1]"
    using k1 by (intro map_cong) auto
  have b: "map (\<lambda>m. g (int ((k1 + m) div N)) (idx + (k1 + m)) ((k1 + m) mod N)) [0..<k2]
         = map (\<lambda>m. g (1 + int (m div N)) (idx + k1 + m) (m mod N)) [0..<k2]"
  proof (cases "k1 < N")
    case True
    then show ?thesis using k2 by simp
  next
    case False
    then have "k1 = N" using k1 by simp
    then show ?thesis using N by (simp add: add.assoc)
  qed
  show ?thesis
    unfolding upt_split[of "\<lambda>m. g (int (m div N)) (idx + m) (m mod N)" k1 k2] a b ..
qed

lemma campaign_loop_closed:
  assumes "1 \<le> frequency"
  shows "campaign_loop now frequency cs uid cid end_date cur (cnt, idx, pend) =
     Inr (cnt + int (min (days_left end_date cur * nat frequency) (length cs - idx)),
          idx + min (days_left end_date cur * nat frequency) (length cs - idx),
          pend @ map (\<lambda>m. slot_row now frequency cs uid cid
                             (add_days cur (int (m div nat frequency))) (idx + m) (m mod nat frequency))
                   [0..<min (days_left end_date cur * nat frequency) (length cs - idx)])"
proof (induction "days_left end_date cur" arbitrary: cur cnt idx pend)
  case 0
  then have "\<not> dt_le cur end_date" by (simp add: days_left_def split: if_splits)
  then show ?case using 0 by (subst campaign_loop.simps) simp
next
  case (Suc D)
  let ?N = "nat frequency"
  let ?g = "\<lambda>dd j i. slot_row now frequency cs uid cid (add_days cur dd) j i"
  have N: "0 < ?N" using assms by simp
  have le: "dt_le cur end_date" using Suc.hyps(2) by (simp add: days_left_def split: if_splits)
  have D: "D = days_left end_date (add_days cur 1)"
    using days_left_step[OF le] Suc.hyps(2) by simp
  show ?case
  proof (cases "idx < length cs")
    case False
    then show ?thesis by (subst campaign_loop.simps) simp
  next
    case True
    define k1 where "k1 = min ?N (length cs - idx)"
    define k2 where "k2 = min (D * ?N) (length cs - (idx + k1))"
    have day: "day_loop now frequency cs uid cid cur (py_range frequency) (cnt, idx, pend) =
       Inr (cnt + int k1, idx + k1, pend @ map (\<lambda>m. ?g 0 (idx + m) m) [0..<k1])"
      using day_loop_closed[OF assms, of ?N now cs uid cid cur 0 cnt idx pend]
      by (simp add: py_range_def k1_def add_days_0)
    have step: "campaign_loop now frequency cs uid cid end_date cur (cnt, idx, pend)
       = campaign_loop now frequency cs uid cid end_date (add_days cur 1)
           (cnt + int k1, idx + k1, pend @ map (\<lambda>m. ?g 0 (idx + m) m) [0..<k1])"
      by (subst campaign_loop.simps) (simp add: le True day)
    have ih: "campaign_loop now frequency cs uid cid end_date (add_days cur 1)
           (cnt + int k1, idx + k1, pend @ map (\<lambda>m. ?g 0 (idx + m) m) [0..<k1])
       = Inr (cnt + int k1 + int k2, idx + k1 + k2,
              (pend @ map (\<lambda>m. ?g 0 (idx + m) m) [0..<k1])
              @ map (\<lambda>m. ?g (1 + int (m div ?N)) (idx + k1 + m) (m mod ?N)) [0..<k2])"
      unfolding k2_def D
      by (subst Suc.hyps(1)[OF D]) (simp add: add_days_add D)
    have tot: "min (days_left end_date cur * ?N) (length cs - idx) = k1 + k2"
      unfolding Suc.hyps(2)[symmetric] k1_def k2_def
      using min_split[of ?N "D * ?N" "length cs - idx"] by simp
    have k2z: "k1 < ?N \<Longrightarrow> k2 = 0" by (auto simp: k1_def k2_def)
    have k1le: "k1 \<le> ?N" by (simp add: k1_def)
    have rows: "map (\<lambda>m. ?g (int (m div ?N)) (idx + m) (m mod ?N)) [0..<k1 + k2]
        = map (\<lambda>m. ?g 0 (idx + m) m) [0..<k1]
          @ map (\<lambda>m. ?g (1 + int (m div ?N)) (idx + k1 + m) (m mod ?N)) [0..<k2]"
      by (rule rows_split[OF N k1le k2z])
    show ?thesis
      unfolding step ih tot using rows by simp
  qed
qed

lemma w_gen: "generate_campaign_content w_ai (w_db []) 7 6
     = [''a'', ''aa'', ''aaa'', ''aaaa'', ''aaaaa'', ''aaaaaa'']"
  by (simp add: generate_campaign_content_def w_db_def py_range_def w_ai_def eval_nat_numeral)

lemma w_gen2: "generate_campaign_content w_ai2 (w_db []) 7 6 = [''a'', ''aa'', ''aaa'', ''aaaa'']"
  by (simp add: generate_campaign_content_def w_db_def py_range_def w_ai2_def eval_nat_numeral)

lemma w_days: "days_left (w_time 11) (w_time 10) = 2" "delta_days (w_time 11) (w_time 10) = 1"
  by (simp_all add: days_left_def delta_days_def dt_le_def dt_micros_def day_micros_def w_time_def)

lemma w_upt: "[0..<6] = [0, 1, 2, 3, 4, 5]" "[0..<4] = [0, 1, 2, 3]"
  by (simp_all add: eval_nat_numeral upt_rec)

text \<open>
  C3. For an existing campaign with a daily frequency \<open>N \<ge> 1\<close> and a non-empty list \<open>cs\<close> of
  generated contents, \<open>schedule_campaign_tweets\<close> returns the count
  \<open>k = min (days * N) (length cs)\<close>, where \<open>days\<close> is the number of days from the start date
  to the end date, and commits exactly \<open>k\<close> new rows: the row number \<open>m\<close> (from \<open>0\<close>) carries
  the content \<open>cs ! m\<close>, lies on the day \<open>start_date + m div N\<close> and at the hour
  \<open>(m mod N + 1) * (24 // (N + 1))\<close>, minute and second \<open>0\<close>. So each day gets its posts at the
  hour offsets \<open>(slot + 1) * (24 // (N + 1))\<close>, every content is used at most once, and when
  there are fewer contents than slots the rows stop with the last content. For \<open>N = 3\<close> over
  two days with six contents: six rows, three per day, at the hours 6, 12 and 18; with four
  contents: four rows, the fourth at hour 6 of the second day.
\<close>

theorem schedule_campaign_tweets_slots:
  assumes "campaigns d cid = Some c"
    and "frequency_of c tweets_per_day = N" and "1 \<le> N"
    and "generate_campaign_content ai d cid ((delta_days end_date start_date + 1) * N) = cs"
    and "cs \<noteq> []"
    and "k = min (days_left end_date start_date * nat N) (length cs)"
  shows "schedule_campaign_tweets ai now d cid start_date end_date tweets_per_day =
     (Inr (int k),
      d\<lparr>tweets := insert_rows (tweets d)
         (map (\<lambda>m. slot_row now N cs (c_user_id c) cid
                     (add_days start_date (int (m div nat N))) m (m mod nat N)) [0..<k])\<rparr>)"
proof -
  have body: "schedule_campaign_tweets_body ai now d cid start_date end_date tweets_per_day
      = campaign_loop now N cs (c_user_id c) cid end_date start_date (0, 0, [])"
    using assms(1,2,4,5) by (simp add: schedule_campaign_tweets_body_def Let_def)
  show ?thesis
    unfolding schedule_campaign_tweets_def body campaign_loop_closed[OF assms(3)] assms(6)
    by simp
qed

theorem schedule_campaign_tweets_slots_witness:
  "fst (schedule_campaign_tweets w_ai (w_time 1) (w_db []) 7 (w_time 10) (w_time 11) None) = Inr 6
   \<and> map slot_of
        (tweets (snd (schedule_campaign_tweets w_ai (w_time 1) (w_db []) 7 (w_time 10) (w_time 11) None)))
      = [(''a'', 10, 6, 0, 0), (''aa'', 10, 12, 0, 0), (''aaa'', 10, 18, 0, 0),
         (''aaaa'', 11, 6, 0, 0), (''aaaaa'', 11, 12, 0, 0), (''aaaaaa'', 11, 18, 0, 0)]
   \<and> fst (schedule_campaign_tweets w_ai2 (w_time 1) (w_db []) 7 (w_time 10) (w_time 11) None) = Inr 4
   \<and> map slot_of
        (tweets (snd (schedule_campaign_tweets w_ai2 (w_time 1) (w_db []) 7 (w_time 10) (w_time 11) None)))
      = [(''a'', 10, 6, 0, 0), (''aa'', 10, 12, 0, 0), (''aaa'', 10, 18, 0, 0),
         (''aaaa'', 11, 6, 0, 0)]"
proof -
  have c: "campaigns (w_db []) 7 = Some \<lparr>c_id = 7, tweet_frequency = 3, is_active = True, c_user_id = 1\<rparr>"
    by (simp add: w_db_def)
  have f: "frequency_of \<lparr>c_id = 7, tweet_frequency = 3, is_active = True, c_user_id = 1\<rparr> None = 3"
    by (simp add: frequency_of_def)
  have n: "(1::int) \<le> 3" by simp
  have g: "generate_campaign_content w_ai (w_db []) 7 ((delta_days (w_time 11) (w_time 10) + 1) * 3)
     = [''a'', ''aa'', ''aaa'', ''aaaa'', ''aaaaa'', ''aaaaaa'']"
    by (simp add: w_days w_gen)
  have ne: "[''a'', ''aa'', ''aaa'', ''aaaa'', ''aaaaa'', ''aaaaaa''] \<noteq> []" by simp
  have k: "(6::nat) = min (days_left (w_time 11) (w_time 10) * nat 3)
             (length [''a'', ''aa'', ''aaa'', ''aaaa'', ''aaaaa'', ''aaaaaa''])"
    by (simp add: w_days)
  have g2: "generate_campaign_content w_ai2 (w_db []) 7 ((delta_days (w_time 11) (w_time 10) + 1) * 3)
     = [''a'', ''aa'', ''aaa'', ''aaaa'']"
    by (simp add: w_days w_gen2)
  have ne2: "[''a'', ''aa'', ''aaa'', ''aaaa''] \<noteq> []" by simp
  have k2: "(4::nat) = min (days_left (w_time 11) (w_time 10) * nat 3)
             (length [''a'', ''aa'', ''aaa'', ''aaaa''])"
    by (simp add: w_days)
  show ?thesis
    unfolding schedule_campaign_tweets_slots[OF c f n g ne k, of "w_time 1"]
      schedule_campaign_tweets_slots[OF c f n g2 ne2 k2, of "w_time 1"]
    by (simp add: w_upt slot_row_def ScheduledTweet_def add_days_def next_id_def slot_of_def
          w_time_def w_db_def)
qed

section \<open>Pausing and resuming a campaign\<close>

text \<open>
  C7. For an existing campaign, pausing sets exactly its rows with status \<open>'scheduled'\<close> to
  \<open>'cancelled'\<close> and leaves every other row as it is; resuming sets exactly its rows with
  status \<open>'cancelled'\<close> and a scheduled time after the current time to \<open>'scheduled'\<close> and
  leaves every other row (a past-due cancelled row among them) as it is; neither changes
  a scheduled time.
\<close>

theorem pause_resume_campaign:
  assumes "campaigns d cid = Some c"
  shows "fst (pause_campaign d cid) \<and> fst (resume_campaign now d cid)
     \<and> length (tweets (snd (pause_campaign d cid))) = length (tweets d)
     \<and> length (tweets (snd (resume_campaign now d cid))) = length (tweets d)
     \<and> (\<forall>i < length (tweets d).
          (let t = tweets d ! i;
               p = tweets (snd (pause_campaign d cid)) ! i;
               r = tweets (snd (resume_campaign now d cid)) ! i
           in scheduled_time p = scheduled_time t \<and> scheduled_time r = scheduled_time t
              \<and> (if campaign_id t = Some cid \<and> status t = ''scheduled''
                  then p = t\<lparr>status := ''cancelled''\<rparr> else p = t)
              \<and> (if campaign_id t = Some cid \<and> status t = ''cancelled''
                     \<and> dt_lt now (scheduled_time t)
                  then r = t\<lparr>status := ''scheduled''\<rparr> else r = t)))"
  using assms by (simp add: pause_campaign_def resume_campaign_def Let_def)


theorem pause_resume_campaign_witness:
  "map status (tweets (snd (pause_campaign
       (w_db [w_tweet 1 ''scheduled'' 20 (Some 7), w_tweet 2 ''posted'' 5 (Some 7),
              w_tweet 3 ''scheduled'' 20 None]) 7)))
     = [''cancelled'', ''posted'', ''scheduled'']
   \<and> map status (tweets (snd (resume_campaign (w_time 10)
       (w_db [w_tweet 1 ''cancelled'' 20 (Some 7), w_tweet 2 ''cancelled'' 5 (Some 7),
              w_tweet 3 ''cancelled'' 20 None]) 7)))
     = [''scheduled'', ''cancelled'', ''cancelled'']"
  using pause_resume_campaign[of "w_db [w_tweet 1 ''scheduled'' 20 (Some 7), w_tweet 2 ''posted'' 5 (Some 7),
              w_tweet 3 ''scheduled'' 20 None]" 7 _ "w_time 10"]
  by (simp add: pause_campaign_def resume_campaign_def w_db_def w_tweet_def w_time_def
        dt_lt_def dt_micros_def day_micros_def)

section \<open>The metrics upsert\<close>

lemma find_filter_hd: "find P xs = (case filter P xs of [] \<Rightarrow> None | x # _ \<Rightarrow> Some x)"
  by (induction xs) auto

lemma length_update_first: "length (update_first P f xs) = length xs"
  by (induction xs) auto

lemma filter_update_first:
  assumes "length (filter P xs) \<le> 1" "find P xs = Some x" "P (f x)"
  shows "filter P (update_first P f xs) = [f x]"
  using assms
proof (induction xs)
  case Nil
  then show ?case by simp
next
  case (Cons a xs)
  show ?case
  proof (cases "P a")
    case True
    with Cons.prems have "filter P xs = []" "a = x" by auto
    with True Cons.prems show ?thesis by simp
  next
    case False
    with Cons show ?thesis by simp
  qed
qed

lemma others_update_first:
  assumes "\<And>x. P x \<Longrightarrow> P (f x)"
  shows "filter (\<lambda>x. \<not> P x) (update_first P f xs) = filter (\<lambda>x. \<not> P x) xs"
  using assms by (induction xs) auto

lemma upsert_others:
  "filter (\<lambda>r. \<not> same_key tid uid r) (analytics (update_tweet_analytics now d tid m uid cid))
     = filter (\<lambda>r. \<not> same_key tid uid r) (analytics d)"
proof (cases "engagement m")
  case (Inl e)
  then show ?thesis by (simp add: update_tweet_analytics_def)
next
  case (Inr rate)
  show ?thesis
  proof (cases "find (same_key tid uid) (analytics d)")
    case None
    with Inr show ?thesis by (simp add: update_tweet_analytics_def same_key_def)
  next
    case (Some x)
    with Inr show ?thesis
      by (simp add: update_tweet_analytics_def)
         (rule others_update_first, simp add: same_key_def)
  qed
qed

lemma upsert_once:
  assumes "length (filter (same_key tid uid) (analytics d)) \<le> 1" "engagement m = Inr rate"
  shows "\<exists>r. filter (same_key tid uid) (analytics (update_tweet_analytics now d tid m uid cid)) = [r]
             \<and> counters_of m r"
proof (cases "find (same_key tid uid) (analytics d)")
  case None
  then have "filter (same_key tid uid) (analytics d) = []"
    by (simp add: find_filter_hd split: list.splits)
  with None assms(2) show ?thesis
    by (simp add: update_tweet_analytics_def same_key_def counters_of_def)
next
  case (Some x)
  then have k: "same_key tid uid x" by (auto simp: find_Some_iff)
  let ?f = "\<lambda>a. a\<lparr>likes := get0 m ''likes'', retweets := get0 m ''retweets'',
                    replies := get0 m ''replies'', impressions := get0 m ''impressions'',
                    engagement_rate := rate, last_updated := now\<rparr>"
  have "same_key tid uid (?f x)" using k by (simp add: same_key_def)
  from filter_update_first[OF assms(1) Some, of ?f, OF this] Some assms(2) show ?thesis
    by (simp add: update_tweet_analytics_def counters_of_def)
qed

lemma upsert_length_existing:
  assumes "find (same_key tid uid) (analytics d) = Some x"
  shows "length (analytics (update_tweet_analytics now d tid m uid cid)) = length (analytics d)"
  using assms by (simp add: update_tweet_analytics_def length_update_first split: sum.splits)

lemma bit_length_eq:
  fixes k :: nat
  assumes "2 ^ k \<le> n" "n < 2 ^ Suc k"
  shows "bit_length n = int k + 1"
  using assms
proof (induction k arbitrary: n)
  case 0
  then have "n = 1" by simp
  then show ?case by (simp add: bit_length.simps)
next
  case (Suc k)
  have n: "0 < n" using Suc.prems(1) by (smt (verit) zero_less_power)
  have "2 ^ k \<le> n div 2" "n div 2 < 2 ^ Suc k" using Suc.prems by auto
  from Suc.IH[OF this] n show ?case by (subst bit_length.simps) simp
qed

lemma bit_length_le:
  fixes k :: nat
  assumes "n < 2 ^ k"
  shows "bit_length n \<le> int k"
  using assms
proof (induction k arbitrary: n)
  case 0
  then show ?case by (subst bit_length.simps) simp
next
  case (Suc k)
  show ?case
  proof (cases "n \<le> 0")
    case True
    then show ?thesis by (subst bit_length.simps) simp
  next
    case False
    have "n div 2 < 2 ^ k" using Suc.prems by auto
    from Suc.IH[OF this] False show ?thesis by (subst bit_length.simps) simp
  qed
qed

lemma bit_length_pos: "0 < n \<Longrightarrow> 1 \<le> bit_length n"
proof -
  assume n: "0 < n"
  have "0 \<le> bit_length m" for m
    by (induction m rule: bit_length.induct) (subst bit_length.simps, simp)
  from this[of "n div 2"] n show ?thesis by (subst bit_length.simps) simp
qed

lemma floor_log2_le:
  assumes "0 < q"
  shows "floor_log2 a q \<le> bit_length a - 1"
  using bit_length_pos[OF assms] by (simp add: floor_log2_def Let_def)

lemma nearest_double_finite:
  assumes "0 < q" "\<bar>p\<bar> < 2 ^ 1000"
  shows "\<exists>m e. nearest_double p q = Finite m e"
proof (cases "p = 0")
  case True
  then show ?thesis by (simp add: nearest_double_def)
next
  case False
  define e where "e = max (floor_log2 \<bar>p\<bar> q - 52) (- 1074)"
  define r where "r = round_half_even (\<bar>p\<bar> * 2 ^ nat (- e)) (q * 2 ^ nat e)"
  have "floor_log2 \<bar>p\<bar> q \<le> 999"
    using floor_log2_le[OF assms(1), of "\<bar>p\<bar>"] bit_length_le[OF assms(2)] by simp
  then have e: "e \<le> 947" by (simp add: e_def)
  have nd: "nearest_double p q =
      (if 971 < (if r = 2 ^ 53 then e + 1 else e) then Infinity (p < 0)
       else if (if r = 2 ^ 53 then 2 ^ 52 else r) = 0 then Finite 0 0
       else Finite (sgn p * (if r = 2 ^ 53 then 2 ^ 52 else r)) (if r = 2 ^ 53 then e + 1 else e))"
    unfolding nearest_double_def Let_def e_def r_def using False by (simp only: if_False)
  show ?thesis
  proof (cases "r = 2 ^ 53")
    case True
    with e show ?thesis unfolding nd by simp
  next
    case False
    with e show ?thesis unfolding nd by simp
  qed
qed

lemma py_truediv_finite:
  assumes "0 < b" "\<bar>a\<bar> < 2 ^ 1000"
  shows "\<exists>m e. py_truediv a b = Inr (Finite m e)"
  using nearest_double_finite[of b a] assms by (auto simp: py_truediv_def)

lemma w_bit_length: "bit_length 7 = 3" "bit_length 100 = 7" "bit_length 1 = 1"
  "bit_length 35494216806390426619607410278400 = 105"
  "bit_length 5070602400912917605986812821504 = 103"
  using bit_length_eq[of 2 7] bit_length_eq[of 6 100] bit_length_eq[of 0 1]
    bit_length_eq[of 104 35494216806390426619607410278400]
    bit_length_eq[of 102 5070602400912917605986812821504]
  by simp_all

lemma w_floor_log2: "floor_log2 7 100 = - 4" "floor_log2 100 1 = 6"
  "floor_log2 35494216806390426619607410278400 5070602400912917605986812821504 = 2"
  by (simp_all add: floor_log2_def w_bit_length)

lemma w_nearest_double: "nearest_double 7 100 = Finite 5044031582654956 (- 56)"
  "nearest_double 100 1 = Finite 7036874417766400 (- 46)"
  "nearest_double 35494216806390426619607410278400 5070602400912917605986812821504
     = Finite 7881299347898369 (- 50)"
  by (simp_all add: nearest_double_def w_floor_log2 round_half_even_def Let_def)

lemma w_engagement: "engagement w_metrics = Inr (Finite 7881299347898369 (- 50))"
  by (simp add: engagement_def w_metrics_def get0_def py_truediv_def py_float_def
        w_nearest_double)

text \<open>
  C8. When at most one metrics row has the key (tweet id, user id) and the sum of the
  counters is below \<open>2^1000\<close> in absolute value (so that the division does not overflow),
  applying \<open>update_tweet_analytics\<close> once leaves exactly one row with that key, applying it
  again with the same metrics leaves exactly one row with the same counters and adds no
  row, neither application changes a row of another key, and the stored engagement rate is
  the float \<open>q * 100\<close> for the float quotient \<open>q = (likes + retweets + replies) / impressions\<close>,
  that is the value of the Python expression
  \<open>(likes + retweets + replies) / impressions * 100\<close>, and \<open>0\<close> when the impressions are not
  positive. For 7 interactions on 100 impressions the stored rate is
  \<open>7881299347898369 * 2^-50\<close>, the float \<open>7.000000000000001\<close>.
\<close>

theorem update_tweet_analytics_idempotent:
  assumes "length (filter (same_key tid uid) (analytics d)) \<le> 1"
    and "\<bar>get0 m ''likes'' + get0 m ''retweets'' + get0 m ''replies''\<bar> < 2 ^ 1000"
  shows "\<exists>r1 r2 q.
      filter (same_key tid uid) (analytics (update_tweet_analytics now1 d tid m uid cid)) = [r1]
    \<and> filter (same_key tid uid)
        (analytics (update_tweet_analytics now2 (update_tweet_analytics now1 d tid m uid cid)
                      tid m uid cid)) = [r2]
    \<and> length (analytics (update_tweet_analytics now2 (update_tweet_analytics now1 d tid m uid cid)
                      tid m uid cid))
      = length (analytics (update_tweet_analytics now1 d tid m uid cid))
    \<and> likes r2 = likes r1 \<and> retweets r2 = retweets r1 \<and> replies r2 = replies r1
    \<and> impressions r2 = impressions r1 \<and> engagement_rate r2 = engagement_rate r1
    \<and> likes r1 = get0 m ''likes'' \<and> retweets r1 = get0 m ''retweets''
    \<and> replies r1 = get0 m ''replies'' \<and> impressions r1 = get0 m ''impressions''
    \<and> (0 < get0 m ''impressions'' \<longrightarrow>
          py_truediv (get0 m ''likes'' + get0 m ''retweets'' + get0 m ''replies'')
            (get0 m ''impressions'') = Inr q)
    \<and> engagement_rate r1 =
        (if 0 < get0 m ''impressions'' then py_float_mul q (py_float 100) else Finite 0 0)
    \<and> filter (\<lambda>r. \<not> same_key tid uid r)
        (analytics (update_tweet_analytics now1 d tid m uid cid))
      = filter (\<lambda>r. \<not> same_key tid uid r) (analytics d)
    \<and> filter (\<lambda>r. \<not> same_key tid uid r)
        (analytics (update_tweet_analytics now2 (update_tweet_analytics now1 d tid m uid cid)
                      tid m uid cid))
      = filter (\<lambda>r. \<not> same_key tid uid r) (analytics d)"
proof -
  let ?d1 = "update_tweet_analytics now1 d tid m uid cid"
  let ?total = "get0 m ''likes'' + get0 m ''retweets'' + get0 m ''replies''"
  obtain q where q: "0 < get0 m ''impressions'' \<Longrightarrow>
      py_truediv ?total (get0 m ''impressions'') = Inr q"
    using py_truediv_finite[OF _ assms(2), of "get0 m ''impressions''"] by blast
  let ?rate = "if 0 < get0 m ''impressions'' then py_float_mul q (py_float 100) else Finite 0 0"
  have e: "engagement m = Inr ?rate"
    using q by (simp add: engagement_def Let_def)
  obtain r1 where r1: "filter (same_key tid uid) (analytics ?d1) = [r1]" "counters_of m r1"
    using upsert_once[OF assms(1) e] by blast
  then have le: "length (filter (same_key tid uid) (analytics ?d1)) \<le> 1" by simp
  obtain r2 where r2: "filter (same_key tid uid)
        (analytics (update_tweet_analytics now2 ?d1 tid m uid cid)) = [r2]" "counters_of m r2"
    using upsert_once[OF le e] by blast
  have "find (same_key tid uid) (analytics ?d1) = Some r1"
    using r1 by (simp add: find_filter_hd)
  from upsert_length_existing[OF this]
  have len: "length (analytics (update_tweet_analytics now2 ?d1 tid m uid cid))
      = length (analytics ?d1)" .
  have c1: "engagement_rate r1 = ?rate" "engagement_rate r2 = ?rate"
    using r1(2) r2(2) e by (simp_all add: counters_of_def)
  have c2: "likes r1 = get0 m ''likes''" "retweets r1 = get0 m ''retweets''"
    "replies r1 = get0 m ''replies''" "impressions r1 = get0 m ''impressions''"
    "likes r2 = get0 m ''likes''" "retweets r2 = get0 m ''retweets''"
    "replies r2 = get0 m ''replies''" "impressions r2 = get0 m ''impressions''"
    using r1(2) r2(2) by (simp_all add: counters_of_def)
  have "filter (same_key tid uid) (analytics ?d1) = [r1]
    \<and> filter (same_key tid uid) (analytics (update_tweet_analytics now2 ?d1 tid m uid cid)) = [r2]
    \<and> length (analytics (update_tweet_analytics now2 ?d1 tid m uid cid)) = length (analytics ?d1)
    \<and> likes r2 = likes r1 \<and> retweets r2 = retweets r1 \<and> replies r2 = replies r1
    \<and> impressions r2 = impressions r1 \<and> engagement_rate r2 = engagement_rate r1
    \<and> likes r1 = get0 m ''likes'' \<and> retweets r1 = get0 m ''retweets''
    \<and> replies r1 = get0 m ''replies'' \<and> impressions r1 = get0 m ''impressions''
    \<and> (0 < get0 m ''impressions'' \<longrightarrow> py_truediv ?total (get0 m ''impressions'') = Inr q)
    \<and> engagement_rate r1 = ?rate
    \<and> filter (\<lambda>r. \<not> same_key tid uid r) (analytics ?d1)
      = filter (\<lambda>r. \<not> same_key tid uid r) (analytics d)
    \<and> filter (\<lambda>r. \<not> same_key tid uid r)
        (analytics (update_tweet_analytics now2 ?d1 tid m uid cid))
      = filter (\<lambda>r. \<not> same_key tid uid r) (analytics d)"
    using r1(1) r2(1) len q by (simp add: c1 c2 upsert_others)
  then show ?thesis by blast
qed

theorem update_tweet_analytics_idempotent_witness:
  "map (\<lambda>r. (likes r, retweets r, replies r, impressions r, engagement_rate r))
     (analytics (update_tweet_analytics (w_time 11)
        (update_tweet_analytics (w_time 10) (w_db []) ''99'' w_metrics 1 None)
        ''99'' w_metrics 1 None))
   = [(4, 2, 1, 100, Finite 7881299347898369 (- 50))]
   \<and> py_truediv 7 100 = Inr (Finite 5044031582654956 (- 56))
   \<and> py_float_mul (Finite 5044031582654956 (- 56)) (py_float 100)
       = Finite 7881299347898369 (- 50)"
  using update_tweet_analytics_idempotent[of "''99''" 1 "w_db []" w_metrics
      "w_time 10" None "w_time 11"]
  by (simp add: update_tweet_analytics_def w_db_def same_key_def w_engagement
        py_truediv_def py_float_def w_nearest_double)
     (simp add: w_metrics_def get0_def)

section \<open>Scheduling without content\<close>

text \<open>
  C10. For an existing campaign: when content generation returns the empty list,
  \<open>schedule_campaign_tweets\<close> raises \<open>Exception("Failed to schedule tweets")\<close> and the
  database is the one before the call; and whenever it returns a count, the generated list
  was not empty.
\<close>

theorem schedule_without_content_fails:
  assumes "campaigns d cid = Some c"
  shows "(generate_campaign_content ai d cid
            ((delta_days end_date start_date + 1) * frequency_of c tweets_per_day) = []
          \<longrightarrow> schedule_campaign_tweets ai now d cid start_date end_date tweets_per_day
                = (Inl (Exception ''Failed to schedule tweets''), d))
       \<and> (\<forall>n d'. schedule_campaign_tweets ai now d cid start_date end_date tweets_per_day
                    = (Inr n, d')
            \<longrightarrow> generate_campaign_content ai d cid
                  ((delta_days end_date start_date + 1) * frequency_of c tweets_per_day) \<noteq> [])"
  using assms
  by (auto simp: schedule_campaign_tweets_def schedule_campaign_tweets_body_def Let_def
        frequency_of_def split: sum.splits)

theorem schedule_without_content_fails_witness:
  "schedule_campaign_tweets (\<lambda>i. Inl (Exception ''quota exceeded'')) (w_time 1) (w_db []) 7
       (w_time 10) (w_time 11) None
     = (Inl (Exception ''Failed to schedule tweets''), w_db [])"
  using schedule_without_content_fails[of "w_db []" 7
      "\<lparr>c_id = 7, tweet_frequency = 3, is_active = True, c_user_id = 1\<rparr>"
      "\<lambda>i. Inl (Exception ''quota exceeded'')" "w_time 11" "w_time 10" None "w_time 1"]
  by (simp add: w_db_def w_time_def generate_campaign_content_def py_range_def delta_days_def
        dt_micros_def day_micros_def frequency_of_def upt_rec)


section \<open>The cleanup job\<close>

text \<open>
  C4, as stated, fails: a cancelled row that was never posted and was created long before
  the threshold is kept by the cleanup.
\<close>

theorem cleanup_keeps_cancelled_counterexample:
  "status (w_tweet 1 ''cancelled'' 1 (Some 7)) = ''cancelled''
   \<and> posted_at (w_tweet 1 ''cancelled'' 1 (Some 7)) = None
   \<and> dt_lt (created_at (w_tweet 1 ''cancelled'' 1 (Some 7))) (add_days (w_time 100) (- 30))
   \<and> tweets (cleanup_old_data (w_time 100) (w_db [w_tweet 1 ''cancelled'' 1 (Some 7)]))
       = [w_tweet 1 ''cancelled'' 1 (Some 7)]"
  by (simp add: cleanup_old_data_def old_tweet_def w_db_def w_tweet_def w_time_def dt_lt_def
        dt_micros_def day_micros_def add_days_def)


text \<open>
  C4, amended. Among the rows that have a \<open>posted_at\<close>, one run of the cleanup deletes exactly
  those with status \<open>'posted'\<close> or \<open>'failed'\<close> whose \<open>posted_at\<close> is before the current time
  minus 30 days; a row with any other status is never deleted; and no row appears.
\<close>

theorem cleanup_old_data_deletes:
  assumes "t \<in> set (tweets d)"
  shows "(\<forall>p. posted_at t = Some p \<longrightarrow>
            (t \<in> set (tweets (cleanup_old_data now d))
             \<longleftrightarrow> \<not> ((status t = ''posted'' \<or> status t = ''failed'')
                      \<and> dt_lt p (add_days now (- 30)))))
       \<and> (status t \<noteq> ''posted'' \<and> status t \<noteq> ''failed''
            \<longrightarrow> t \<in> set (tweets (cleanup_old_data now d)))
       \<and> set (tweets (cleanup_old_data now d)) \<subseteq> set (tweets d)"
  using assms by (auto simp: cleanup_old_data_def old_tweet_def)


theorem cleanup_old_data_deletes_witness:
  "tweets (cleanup_old_data (w_time 100)
      (w_db [w_posted 1 10, w_posted 2 90, w_tweet 3 ''cancelled'' 10 (Some 7)]))
   = [w_posted 2 90, w_tweet 3 ''cancelled'' 10 (Some 7)]"
  using cleanup_old_data_deletes[of "w_posted 1 10"
      "w_db [w_posted 1 10, w_posted 2 90, w_tweet 3 ''cancelled'' 10 (Some 7)]" "w_time 100"]
  by (simp add: cleanup_old_data_def old_tweet_def w_db_def w_tweet_def w_posted_def w_time_def
        dt_lt_def dt_micros_def day_micros_def add_days_def)

section \<open>The publish task\<close>

lemma posting_error_retry:
  "snd (posting_error retries d t x) =
     (if retries < 3
      then [Commit (t\<lparr>status := ''failed'', error_message := Some (str_exn x)\<rparr>),
            Send (PublishRetry (st_id t) (retries + 1) (60 * 2 ^ retries))]
      else [Commit (t\<lparr>status := ''failed'', error_message := Some (str_exn x)\<rparr>)])"
  by (simp add: posting_error_def retry_def max_retries_def Let_def)

lemma failed_row_is_skipped:
  assumes "query_get (tweets d) i = Some t" "status t = ''failed''"
  shows "schedule_tweet_task e retries d i = (d, [])"
  using assms by (simp add: schedule_tweet_task_def split: option.splits)

text \<open>
  C1. The claim needs a failed publish at the runs 1, 2 and 3. With a publish service that
  fails on every call, the whole chain of runs is: run 0 commits the row as \<open>'failed'\<close> and
  sends one re-run with countdown 60; run 1 finds the row \<open>'failed'\<close>, skips it, publishes
  nothing and sends nothing. No re-run with countdown 120 or 240 exists.
\<close>

theorem retry_chain_stops_after_first_failure:
  "run_chain 5 (\<lambda>k. w_env (Inl (Exception ''Failed to post tweet: 503'')) None None None) 0
     (w_db [w_tweet 1 ''scheduled'' 20 (Some 7)]) 1
   = Some (w_db [(w_tweet 1 ''scheduled'' 20 (Some 7))
                   \<lparr>status := ''failed'', error_message := Some ''Failed to post tweet: 503''\<rparr>],
           [Commit ((w_tweet 1 ''scheduled'' 20 (Some 7))
                   \<lparr>status := ''failed'', error_message := Some ''Failed to post tweet: 503''\<rparr>),
            Send (PublishRetry 1 1 60)])"
  by (simp add: eval_nat_numeral schedule_tweet_task_def posting_error_def retry_def
        max_retries_def w_env_def w_db_def w_tweet_def query_get_def write_row_def
        has_twitter_auth_def Let_def)

text \<open>
  C2. A run in which the tweet is published and committed as \<open>'posted'\<close>, and then sending
  the analytics task raises: the inner handler commits the row as \<open>'failed'\<close> with its tweet
  id still set.
\<close>

theorem failed_row_keeps_tweet_id:
  "map (\<lambda>t. (status t, tweet_id t))
     (tweets (fst (schedule_tweet_task
        (w_env (Inr ''1234'') None None (Some (Exception ''broker unavailable''))) 0
        (w_db [w_tweet 1 ''scheduled'' 20 (Some 7)]) 1)))
   = [(''failed'', Some ''1234'')]"
  by (simp add: schedule_tweet_task_def posting_error_def retry_def
        max_retries_def w_env_def w_db_def w_tweet_def query_get_def write_row_def
        has_twitter_auth_def Let_def)

text \<open>
  C6, as stated, fails: a run in which a query raises leaves the row \<open>'scheduled'\<close>.
\<close>

theorem unexpected_failure_counterexample:
  "query_raises (w_env (Inr ''1234'') (Some (Exception ''database unavailable'')) None None)
     = Some (Exception ''database unavailable'')
   \<and> map status (tweets (fst (schedule_tweet_task
        (w_env (Inr ''1234'') (Some (Exception ''database unavailable'')) None None) 0
        (w_db [w_tweet 1 ''scheduled'' 20 (Some 7)]) 1)))
     = [''scheduled'']"
  by (simp add: schedule_tweet_task_def w_env_def w_db_def w_tweet_def)

text \<open>
  C5. In every run of the publish task, an analytics message is sent only after a commit of
  the row with status \<open>'posted'\<close>, carrying that row's tweet id, user id and campaign id and a
  countdown of 300 seconds; a run that sends an analytics message has committed the posted
  row, and its commit did not raise.
\<close>

theorem analytics_sent_after_posted_commit:
  "analytics_after_commit [] (snd (schedule_tweet_task e retries d i))
   \<and> (list_ex is_analytics (snd (schedule_tweet_task e retries d i))
        \<longrightarrow> list_ex is_posted_commit (snd (schedule_tweet_task e retries d i))
            \<and> commit_raises e = None)"
  by (auto simp: schedule_tweet_task_def posting_error_def fail_now_def retry_def Let_def
        split: option.splits sum.splits)

theorem analytics_sent_after_posted_commit_witness:
  "snd (schedule_tweet_task (w_env (Inr ''1234'') None None None) 0
        (w_db [w_tweet 1 ''scheduled'' 20 (Some 7)]) 1)
   = [Commit ((w_tweet 1 ''scheduled'' 20 (Some 7))
                \<lparr>status := ''posted'', tweet_id := Some ''1234'',
                  posted_at := Some (w_time 20), error_message := None\<rparr>),
      Send (CollectAnalytics ''1234'' 1 (Some 7) 300)]
   \<and> snd (schedule_tweet_task (w_env (Inr ''1234'') None (Some (Exception ''disk full'')) None) 0
        (w_db [w_tweet 1 ''scheduled'' 20 (Some 7)]) 1) = []"
  using analytics_sent_after_posted_commit[of "w_env (Inr ''1234'') None None None" 0
        "w_db [w_tweet 1 ''scheduled'' 20 (Some 7)]" 1]
  by (simp add: schedule_tweet_task_def w_env_def w_db_def w_tweet_def query_get_def
        write_row_def has_twitter_auth_def Let_def)

text \<open>
  C6, amended. A run in which a query raises outside the publish attempt sends no re-run
  and no other message, and leaves the database as it was: the row is not marked failed.
\<close>

theorem unexpected_failure_leaves_row:
  assumes "query_raises e = Some x"
  shows "schedule_tweet_task e retries d i = (d, [])"
  using assms by (simp add: schedule_tweet_task_def)

theorem unexpected_failure_leaves_row_witness:
  "schedule_tweet_task
        (w_env (Inr ''1234'') (Some (Exception ''database unavailable'')) None None) 2
        (w_db [w_tweet 1 ''scheduled'' 20 (Some 7)]) 1
   = (w_db [w_tweet 1 ''scheduled'' 20 (Some 7)], [])"
  using unexpected_failure_leaves_row[of
        "w_env (Inr ''1234'') (Some (Exception ''database unavailable'')) None None"
        "Exception ''database unavailable''" 2 "w_db [w_tweet 1 ''scheduled'' 20 (Some 7)]" 1]
  by (simp add: w_env_def)

end
